theory Spec2Isabelle
  imports
    Main
    "HOL-Library.Multiset"
    "HOL-Library.Char_ord"
    "HOL-Library.List_Lexorder"
    "HOL-Library.Product_Lexorder"
begin

section \<open>Python strings (ASCII)\<close>

text \<open>
  Path parameters, tax ids and passenger names are Python \<open>str\<close> values. They are
  modelled as \<open>string\<close> with the rules Python applies to ASCII characters: the cased
  characters are \<open>a\<close>..\<open>z\<close> and \<open>A\<close>..\<open>Z\<close>, the digits are \<open>0\<close>..\<open>9\<close>, and
  \<open>str.strip\<close> removes the characters 9..13, 28..31 and 32.
\<close>

definition is_lower :: "char \<Rightarrow> bool" where
  "is_lower c \<longleftrightarrow> CHR ''a'' \<le> c \<and> c \<le> CHR ''z''"

definition is_upper :: "char \<Rightarrow> bool" where
  "is_upper c \<longleftrightarrow> CHR ''A'' \<le> c \<and> c \<le> CHR ''Z''"

definition is_digit :: "char \<Rightarrow> bool" where
  "is_digit c \<longleftrightarrow> CHR ''0'' \<le> c \<and> c \<le> CHR ''9''"

definition is_space :: "char \<Rightarrow> bool" where
  "is_space c \<longleftrightarrow>
     (let n = (of_char c :: nat) in (9 \<le> n \<and> n \<le> 13) \<or> (28 \<le> n \<and> n \<le> 32))"

text \<open>\<open>str.isupper\<close>: no lowercase character and at least one uppercase character.\<close>

definition py_isupper :: "string \<Rightarrow> bool" where
  "py_isupper s \<longleftrightarrow> \<not> list_ex is_lower s \<and> list_ex is_upper s"

definition upper_char :: "char \<Rightarrow> char" where
  "upper_char c = (if is_lower c then char_of ((of_char c :: nat) - 32) else c)"

definition py_upper :: "string \<Rightarrow> string" where
  "py_upper s = map upper_char s"

text \<open>\<open>str.isdigit\<close>: at least one character, and all of them digits.\<close>

definition py_isdigit :: "string \<Rightarrow> bool" where
  "py_isdigit s \<longleftrightarrow> s \<noteq> [] \<and> list_all is_digit s"

definition py_strip :: "string \<Rightarrow> string" where
  "py_strip s = rev (dropWhile is_space (rev (dropWhile is_space s)))"

text \<open>The airport-code format of the schema, \<open>^[A-Z]{3}$\<close>.\<close>

definition airport_code_format :: "string \<Rightarrow> bool" where
  "airport_code_format s \<longleftrightarrow> length s = 3 \<and> list_all is_upper s"

section \<open>The schema\<close>

text \<open>
  The tables of \<open>SCHEMA_SQL\<close> (src/data/gerar_populate.py), one record per row and
  one list per table, in the order the rows were stored. Timestamps are integers
  (microseconds) on one time line: the stored \<open>TIMESTAMP\<close> values are read as UTC,
  as the handlers do when they attach \<open>ZoneInfo("UTC")\<close> to a value without a zone.
  The columns \<open>lugar\<close> and \<open>no_serie\<close> of \<open>bilhete\<close> are nullable, since a ticket
  is sold without a seat; the other columns are taken to be set. \<open>preco\<close> is in whole
  euros (the source writes 500.00 and 150.00).
\<close>

type_synonym timestamp = int

record aeroporto =
  ae_codigo :: string
  ae_nome :: string
  ae_cidade :: string
  ae_pais :: string

record aviao =
  av_no_serie :: string
  av_modelo :: string

record assento =
  a_lugar :: string
  a_no_serie :: string
  a_prim_classe :: bool

record voo =
  v_id :: int
  v_no_serie :: string
  v_hora_partida :: timestamp
  v_hora_chegada :: timestamp
  v_partida :: string
  v_chegada :: string

record venda =
  s_codigo_reserva :: int
  s_nif_cliente :: string
  s_balcao :: string
  s_hora :: timestamp

record bilhete =
  b_id :: int
  b_voo_id :: int
  b_codigo_reserva :: int
  b_nome_passegeiro :: string
  b_preco :: int
  b_prim_classe :: bool
  b_lugar :: "string option"
  b_no_serie :: "string option"

text \<open>
  The two \<open>SERIAL\<close> columns written by the service draw their values from
  sequences; \<open>venda_seq\<close> and \<open>bilhete_seq\<close> hold the last value handed out.
\<close>

record db =
  aeroportos :: "aeroporto list"
  avioes :: "aviao list"
  assentos :: "assento list"
  voos :: "voo list"
  vendas :: "venda list"
  bilhetes :: "bilhete list"
  venda_seq :: int
  bilhete_seq :: int

text \<open>The rows of two states are the same (the sequences may differ).\<close>

definition same_rows :: "db \<Rightarrow> db \<Rightarrow> bool" where
  "same_rows d d' \<longleftrightarrow>
     aeroportos d' = aeroportos d \<and> avioes d' = avioes d \<and> assentos d' = assentos d \<and>
     voos d' = voos d \<and> vendas d' = vendas d \<and> bilhetes d' = bilhetes d"

text \<open>Primary and foreign keys of the schema that the statements below rely on.\<close>

definition pk_bilhete :: "db \<Rightarrow> bool" where
  "pk_bilhete d \<longleftrightarrow> distinct (map b_id (bilhetes d))"

definition pk_voo :: "db \<Rightarrow> bool" where
  "pk_voo d \<longleftrightarrow> distinct (map v_id (voos d))"


definition fk_bilhete_voo :: "db \<Rightarrow> bool" where
  "fk_bilhete_voo d \<longleftrightarrow> list_all (\<lambda>b. b_voo_id b \<in> set (map v_id (voos d))) (bilhetes d)"


section \<open>Errors\<close>

text \<open>
  An exception that leaves a handler: a \<open>psycopg.DatabaseError\<close> with its SQLSTATE,
  or Python's \<open>AttributeError\<close>. \<open>handle_general_exception\<close> gives the HTTP status.
\<close>

datatype exn = PgError string | AttributeError

fun handle_general_exception :: "exn \<Rightarrow> nat" where
  "handle_general_exception (PgError pgcode) =
     (if pgcode \<noteq> [] \<and> pgcode = ''P0001'' then 409
      else if pgcode \<noteq> [] \<and> take 2 pgcode = ''23'' then 409
      else 500)"
| "handle_general_exception AttributeError = 500"

text \<open>
  What the storage engine checks when a row is written (constraints and triggers):
  each check gives the SQLSTATE of the violation, or \<open>None\<close> when the row is accepted.
  The handlers are parameterised by these checks.
\<close>

record engine =
  venda_check :: "db \<Rightarrow> venda \<Rightarrow> string option"
  bilhete_check :: "db \<Rightarrow> bilhete \<Rightarrow> string option"
  update_check :: "db \<Rightarrow> bilhete \<Rightarrow> string option"

text \<open>The constraints of \<open>SCHEMA_SQL\<close> on the rows the service writes.\<close>

definition schema_venda_check :: "db \<Rightarrow> venda \<Rightarrow> string option" where
  "schema_venda_check d s =
     (if s_codigo_reserva s \<in> set (map s_codigo_reserva (vendas d)) then Some ''23505''
      else if length (s_nif_cliente s) > 9 then Some ''22001''
      else if s_balcao s \<notin> set (map ae_codigo (aeroportos d)) then Some ''23503''
      else None)"

definition fk_assento :: "db \<Rightarrow> bilhete \<Rightarrow> bool" where
  "fk_assento d b \<longleftrightarrow>
     (case (b_lugar b, b_no_serie b) of
        (Some l, Some n) \<Rightarrow> list_ex (\<lambda>a. a_lugar a = l \<and> a_no_serie a = n) (assentos d)
      | _ \<Rightarrow> True)"

definition schema_bilhete_check :: "db \<Rightarrow> bilhete \<Rightarrow> string option" where
  "schema_bilhete_check d b =
     (if b_id b \<in> set (map b_id (bilhetes d)) then Some ''23505''
      else if length (b_nome_passegeiro b) > 80 then Some ''22001''
      else if list_ex (\<lambda>x. b_voo_id x = b_voo_id b \<and> b_codigo_reserva x = b_codigo_reserva b \<and>
                 b_nome_passegeiro x = b_nome_passegeiro b) (bilhetes d) then Some ''23505''
      else if b_voo_id b \<notin> set (map v_id (voos d)) then Some ''23503''
      else if b_codigo_reserva b \<notin> set (map s_codigo_reserva (vendas d)) then Some ''23503''
      else if \<not> fk_assento d b then Some ''23503''
      else None)"

definition schema_update_check :: "db \<Rightarrow> bilhete \<Rightarrow> string option" where
  "schema_update_check d b = (if \<not> fk_assento d b then Some ''23503'' else None)"

definition schema_engine :: engine where
  "schema_engine =
     \<lparr>venda_check = schema_venda_check, bilhete_check = schema_bilhete_check,
      update_check = schema_update_check\<rparr>"

text \<open>
  \<open>with conn.transaction()\<close>: an exception rolls the rows back to the snapshot taken
  at \<open>BEGIN\<close> (values drawn from a sequence are not given back); leaving the block
  otherwise, also by \<open>return\<close>, commits.
\<close>

definition rollback :: "db \<Rightarrow> db \<Rightarrow> db" where
  "rollback snapshot working =
     snapshot\<lparr>venda_seq := venda_seq working, bilhete_seq := bilhete_seq working\<rparr>"

definition with_transaction :: "db \<Rightarrow> (exn + 'r) \<times> db \<Rightarrow> (exn + 'r) \<times> db" where
  "with_transaction snapshot res =
     (case res of
        (Inl e, working) \<Rightarrow> (Inl e, rollback snapshot working)
      | (Inr r, working) \<Rightarrow> (Inr r, working))"

section \<open>The listing routes\<close>

text \<open>
  The answers of the two routes: 400 for a code of the wrong format and for equal codes,
  404 with the flags that say which airport exists (the route with one code has no
  arrival and reports \<open>True\<close> for it), and 200 with the message that no flight is
  scheduled, with the message that all flights are full, or with the rows.
\<close>

datatype 'row listing =
    Invalid_codes
  | Same_airports
  | Unknown_airport bool bool
  | No_flights
  | All_full
  | Flights "'row list"

fun listing_status :: "'row listing \<Rightarrow> nat" where
  "listing_status Invalid_codes = 400"
| "listing_status Same_airports = 400"
| "listing_status (Unknown_airport _ _) = 404"
| "listing_status No_flights = 200"
| "listing_status All_full = 200"
| "listing_status (Flights _) = 200"

definition aeroporto_count :: "db \<Rightarrow> string \<Rightarrow> nat" where
  "aeroporto_count d codigo = length (filter (\<lambda>a. ae_codigo a = codigo) (aeroportos d))"

definition twelve_hours :: int where
  "twelve_hours = 12 * 3600 * 1000000"

text \<open>\<open>GET /voos/<partida_codigo>/\<close>; \<open>now_app_tz\<close> is the application's clock.\<close>

definition list_flights_from_departure ::
  "db \<Rightarrow> timestamp \<Rightarrow> string \<Rightarrow> (string \<times> timestamp \<times> string) listing" where
  "list_flights_from_departure d now_app_tz partida_codigo =
     (if \<not> (length partida_codigo = 3 \<and> py_isupper partida_codigo) then Invalid_codes
      else if \<not> (aeroporto_count d (py_upper partida_codigo) > 0) then Unknown_airport False True
      else
        (let flights =
               map (\<lambda>v. (v_no_serie v, v_hora_partida v, v_chegada v))
                 (sort_key v_hora_partida
                    (filter (\<lambda>v. v_partida v = py_upper partida_codigo \<and>
                                  v_hora_partida v > now_app_tz \<and>
                                  v_hora_partida v \<le> now_app_tz + twelve_hours) (voos d)))
         in if flights = [] then No_flights else Flights flights))"

text \<open>\<open>GET /voos/<partida_codigo>/<chegada_codigo>/\<close>; \<open>now\<close> is the storage engine's \<open>NOW()\<close>.\<close>

definition seat_count :: "db \<Rightarrow> string \<Rightarrow> nat" where
  "seat_count d no_serie = length (filter (\<lambda>s. a_no_serie s = no_serie) (assentos d))"

definition ticket_count :: "db \<Rightarrow> int \<Rightarrow> nat" where
  "ticket_count d voo_id = length (filter (\<lambda>b. b_voo_id b = voo_id) (bilhetes d))"

definition flight_row :: "voo \<Rightarrow> int \<times> string \<times> timestamp" where
  "flight_row v = (v_id v, v_no_serie v, v_hora_partida v)"

definition query_all_flights :: "db \<Rightarrow> timestamp \<Rightarrow> string \<Rightarrow> string \<Rightarrow> (int \<times> string \<times> timestamp) list" where
  "query_all_flights d now partida chegada =
     map flight_row
       (sort_key v_hora_partida
          (filter (\<lambda>v. v_partida v = partida \<and> v_chegada v = chegada \<and> v_hora_partida v > now)
             (voos d)))"

definition query_available :: "db \<Rightarrow> timestamp \<Rightarrow> string \<Rightarrow> string \<Rightarrow> (int \<times> string \<times> timestamp) list" where
  "query_available d now partida chegada =
     map (\<lambda>(v, av). flight_row v)
       (take 3
          (sort_key (\<lambda>(v, av). v_hora_partida v)
             (filter (\<lambda>(v, av). v_partida v = partida \<and> v_chegada v = chegada \<and>
                                  v_hora_partida v > now \<and>
                                  seat_count d (v_no_serie v) > ticket_count d (v_id v))
                [(v, av). v \<leftarrow> voos d, av \<leftarrow> avioes d, v_no_serie v = av_no_serie av])))"

definition list_next_available_flights ::
  "db \<Rightarrow> timestamp \<Rightarrow> string \<Rightarrow> string \<Rightarrow> (int \<times> string \<times> timestamp) listing" where
  "list_next_available_flights d now partida_codigo chegada_codigo =
     (let partida_upper = py_upper partida_codigo;
          chegada_upper = py_upper chegada_codigo
      in
        if \<not> (length partida_upper = 3 \<and> py_isupper partida_upper \<and>
               length chegada_upper = 3 \<and> py_isupper chegada_upper) then Invalid_codes
        else if partida_upper = chegada_upper then Same_airports
        else
          (let partida_exists = aeroporto_count d partida_upper > 0;
               chegada_exists = aeroporto_count d chegada_upper > 0
           in
             if \<not> partida_exists \<or> \<not> chegada_exists
             then Unknown_airport partida_exists chegada_exists
             else
               (let all_flights = query_all_flights d now partida_upper chegada_upper;
                    flights = query_available d now partida_upper chegada_upper
                in if all_flights = [] then No_flights
                   else if flights = [] then All_full
                   else Flights flights)))"

section \<open>Purchase\<close>

text \<open>
  The parsed JSON body of \<open>POST /compra/<voo_id>/\<close>, as \<open>request.get_json()\<close>
  returns it: \<open>None\<close>, a bool, a number, a str, a list or a dict (with its items).
\<close>

datatype json =
    JNull
  | JBool bool
  | JNum int
  | JStr string
  | JArr "json list"
  | JObj "(string \<times> json) list"

text \<open>Python's truth value of a parsed body (\<open>not data\<close>).\<close>

fun truthy :: "json \<Rightarrow> bool" where
  "truthy JNull = False"
| "truthy (JBool b) = b"
| "truthy (JNum n) = (n \<noteq> 0)"
| "truthy (JStr s) = (s \<noteq> [])"
| "truthy (JArr xs) = (xs \<noteq> [])"
| "truthy (JObj kvs) = (kvs \<noteq> [])"

text \<open>\<open>dict.get(key)\<close>: \<open>None\<close> when the key is absent.\<close>

definition dict_get :: "(string \<times> json) list \<Rightarrow> string \<Rightarrow> json" where
  "dict_get kvs k = (case map_of kvs k of None \<Rightarrow> JNull | Some v \<Rightarrow> v)"

text \<open>
  \<open>not nif_cliente or not isinstance(nif_cliente, str) or len(nif_cliente) != 9 or
  not nif_cliente.isdigit()\<close>
\<close>

fun nif_invalid :: "json \<Rightarrow> bool" where
  "nif_invalid (JStr s) = (s = [] \<or> length s \<noteq> 9 \<or> \<not> py_isdigit s)"
| "nif_invalid _ = True"

text \<open>
  \<open>not bilhetes_a_comprar or not isinstance(bilhetes_a_comprar, list) or
  not bilhetes_a_comprar\<close>
\<close>

fun list_invalid :: "json \<Rightarrow> bool" where
  "list_invalid (JArr xs) = (xs = [])"
| "list_invalid _ = True"

text \<open>The condition of the loop over the entries: the entry is rejected.\<close>

fun ticket_invalid :: "json \<Rightarrow> bool" where
  "ticket_invalid (JObj kvs) =
     (case map_of kvs ''nome_passageiro'' of
        None \<Rightarrow> True
      | Some (JStr nome) \<Rightarrow>
          py_strip nome = [] \<or>
          (case map_of kvs ''prim_classe'' of Some (JBool _) \<Rightarrow> False | _ \<Rightarrow> True)
      | Some _ \<Rightarrow> True)"
| "ticket_invalid _ = True"

text \<open>The index of the first entry the loop rejects, counting from \<open>i\<close>.\<close>

fun first_invalid :: "nat \<Rightarrow> json list \<Rightarrow> nat option" where
  "first_invalid i [] = None"
| "first_invalid i (x # xs) = (if ticket_invalid x then Some i else first_invalid (Suc i) xs)"

text \<open>\<open>bilhete_info['nome_passageiro']\<close> and \<open>bilhete_info['prim_classe']\<close> of a validated entry.\<close>

fun entry_of :: "json \<Rightarrow> string \<times> bool" where
  "entry_of (JObj kvs) =
     (case (map_of kvs ''nome_passageiro'', map_of kvs ''prim_classe'') of
        (Some (JStr nome), Some (JBool c)) \<Rightarrow> (nome, c)
      | _ \<Rightarrow> ([], False))"
| "entry_of _ = ([], False)"

fun items_of :: "json \<Rightarrow> json list" where
  "items_of (JArr xs) = xs"
| "items_of _ = []"

fun str_of :: "json \<Rightarrow> string" where
  "str_of (JStr s) = s"
| "str_of _ = []"

datatype classe = Primeira | Economica

record ticket_summary =
  t_id_bilhete :: int
  t_passageiro :: string
  t_classe :: classe
  t_preco :: int

datatype purchase_response =
    Missing_data
  | Invalid_nif
  | Invalid_list
  | Invalid_ticket nat
  | Flight_not_found
  | Sales_closed
  | Purchased int "ticket_summary list"
  | Purchase_failed exn

fun purchase_status :: "purchase_response \<Rightarrow> nat" where
  "purchase_status Missing_data = 400"
| "purchase_status Invalid_nif = 400"
| "purchase_status Invalid_list = 400"
| "purchase_status (Invalid_ticket _) = 400"
| "purchase_status Flight_not_found = 404"
| "purchase_status Sales_closed = 409"
| "purchase_status (Purchased _ _) = 201"
| "purchase_status (Purchase_failed e) = handle_general_exception e"

text \<open>\<open>INSERT INTO venda ... RETURNING codigo_reserva\<close>\<close>

definition insert_venda :: "engine \<Rightarrow> db \<Rightarrow> string \<Rightarrow> string \<Rightarrow> timestamp \<Rightarrow> (exn + int) \<times> db" where
  "insert_venda eng d nif_cliente balcao hora =
     (let codigo = venda_seq d + 1;
          d1 = d\<lparr>venda_seq := codigo\<rparr>;
          row = \<lparr>s_codigo_reserva = codigo, s_nif_cliente = nif_cliente, s_balcao = balcao,
                 s_hora = hora\<rparr>
      in case venda_check eng d1 row of
           Some pgcode \<Rightarrow> (Inl (PgError pgcode), d1)
         | None \<Rightarrow> (Inr codigo, d1\<lparr>vendas := vendas d1 @ [row]\<rparr>))"

text \<open>\<open>INSERT INTO bilhete (...) VALUES (...) RETURNING id\<close>; \<open>lugar\<close> is not given and stays null.\<close>

definition insert_bilhete ::
  "engine \<Rightarrow> db \<Rightarrow> int \<Rightarrow> int \<Rightarrow> string \<Rightarrow> int \<Rightarrow> bool \<Rightarrow> string \<Rightarrow> (exn + int) \<times> db" where
  "insert_bilhete eng d voo_id codigo_reserva nome_passageiro preco prim_classe no_serie =
     (let new_id = bilhete_seq d + 1;
          d1 = d\<lparr>bilhete_seq := new_id\<rparr>;
          row = \<lparr>b_id = new_id, b_voo_id = voo_id, b_codigo_reserva = codigo_reserva,
                 b_nome_passegeiro = nome_passageiro, b_preco = preco,
                 b_prim_classe = prim_classe, b_lugar = None, b_no_serie = Some no_serie\<rparr>
      in case bilhete_check eng d1 row of
           Some pgcode \<Rightarrow> (Inl (PgError pgcode), d1)
         | None \<Rightarrow> (Inr new_id, d1\<lparr>bilhetes := bilhetes d1 @ [row]\<rparr>))"

text \<open>The loop over \<open>bilhetes_a_comprar\<close>, with the details collected so far.\<close>

fun insert_bilhetes ::
  "engine \<Rightarrow> db \<Rightarrow> int \<Rightarrow> int \<Rightarrow> string \<Rightarrow> (string \<times> bool) list \<Rightarrow> ticket_summary list \<Rightarrow>
     (exn + ticket_summary list) \<times> db" where
  "insert_bilhetes eng d voo_id codigo_reserva no_serie_voo [] detalhes = (Inr detalhes, d)"
| "insert_bilhetes eng d voo_id codigo_reserva no_serie_voo ((nome_passageiro, prim_classe) # rest) detalhes =
     (let preco = (if prim_classe then 500 else 150)
      in case insert_bilhete eng d voo_id codigo_reserva nome_passageiro preco prim_classe no_serie_voo of
           (Inl e, d1) \<Rightarrow> (Inl e, d1)
         | (Inr bilhete_id_comprado, d1) \<Rightarrow>
             insert_bilhetes eng d1 voo_id codigo_reserva no_serie_voo rest
               (detalhes @ [\<lparr>t_id_bilhete = bilhete_id_comprado, t_passageiro = nome_passageiro,
                              t_classe = (if prim_classe then Primeira else Economica),
                              t_preco = preco\<rparr>]))"

text \<open>The body of the transaction of \<open>purchase_tickets\<close>.\<close>

definition purchase_transaction ::
  "engine \<Rightarrow> db \<Rightarrow> timestamp \<Rightarrow> int \<Rightarrow> string \<Rightarrow> (string \<times> bool) list \<Rightarrow>
     (exn + purchase_response) \<times> db" where
  "purchase_transaction eng d hora_venda_db voo_id nif_cliente bilhetes_a_comprar =
     (case filter (\<lambda>v. v_id v = voo_id) (voos d) of
        [] \<Rightarrow> (Inr Flight_not_found, d)
      | voo_info # _ \<Rightarrow>
          if hora_venda_db \<ge> v_hora_partida voo_info then (Inr Sales_closed, d)
          else if hora_venda_db \<ge> v_hora_partida voo_info then (Inr Sales_closed, d)
          else
            (case insert_venda eng d nif_cliente (v_partida voo_info) hora_venda_db of
               (Inl e, d1) \<Rightarrow> (Inl e, d1)
             | (Inr codigo_reserva, d1) \<Rightarrow>
                 (case insert_bilhetes eng d1 voo_id codigo_reserva (v_no_serie voo_info)
                         bilhetes_a_comprar [] of
                    (Inl e, d2) \<Rightarrow> (Inl e, d2)
                  | (Inr detalhes, d2) \<Rightarrow> (Inr (Purchased codigo_reserva detalhes), d2))))"

text \<open>
  The checks of \<open>purchase_tickets\<close> before the transaction: the response when the
  body is rejected, or the tax id and the entries when it is accepted. \<open>data.get\<close> on
  a body that is not a dict raises \<open>AttributeError\<close>.
\<close>

definition payload_check :: "json \<Rightarrow> purchase_response + string \<times> (string \<times> bool) list" where
  "payload_check data =
     (if \<not> truthy data then Inl Missing_data
      else
        (case data of
           JObj kvs \<Rightarrow>
             (let nif_cliente = dict_get kvs ''nif_cliente'';
                  bilhetes_a_comprar = dict_get kvs ''bilhetes_a_comprar''
              in
                if nif_invalid nif_cliente then Inl Invalid_nif
                else if list_invalid bilhetes_a_comprar then Inl Invalid_list
                else
                  (case first_invalid 0 (items_of bilhetes_a_comprar) of
                     Some i \<Rightarrow> Inl (Invalid_ticket i)
                   | None \<Rightarrow>
                       Inr (str_of nif_cliente, map entry_of (items_of bilhetes_a_comprar))))
         | _ \<Rightarrow> Inl (Purchase_failed AttributeError)))"

definition purchase_tickets ::
  "engine \<Rightarrow> db \<Rightarrow> timestamp \<Rightarrow> int \<Rightarrow> json \<Rightarrow> purchase_response \<times> db" where
  "purchase_tickets eng d now voo_id data =
     (case payload_check data of
        Inl response \<Rightarrow> (response, d)
      | Inr (nif_cliente, bilhetes_a_comprar) \<Rightarrow>
          (case with_transaction d
                  (purchase_transaction eng d now voo_id nif_cliente bilhetes_a_comprar) of
             (Inl e, d') \<Rightarrow> (Purchase_failed e, d')
           | (Inr response, d') \<Rightarrow> (response, d')))"

section \<open>Check-in\<close>

text \<open>
  PostgreSQL's \<open>regexp_replace(source, pattern, '')\<close> without the flag \<open>g\<close>, for a
  pattern that is one character class: the first character of the class is removed.
\<close>

fun regexp_replace :: "string \<Rightarrow> (char \<Rightarrow> bool) \<Rightarrow> string" where
  "regexp_replace [] cls = []"
| "regexp_replace (c # cs) cls = (if cls c then cs else c # regexp_replace cs cls)"

text \<open>
  \<open>CAST(... AS INTEGER)\<close> of a text of decimal digits; any other text, and a value
  beyond the 32-bit range, is an error of the statement. (The \<open>CHECK\<close> on
  \<open>assento.lugar\<close> admits one or two digits before the letter.)
\<close>

definition digit_value :: "char \<Rightarrow> int" where
  "digit_value c = int (of_char c) - 48"

definition cast_integer :: "string \<Rightarrow> int option" where
  "cast_integer s =
     (if s \<noteq> [] \<and> list_all is_digit s
      then (let n = foldl (\<lambda>acc c. 10 * acc + digit_value c) 0 s
            in if n \<le> 2147483647 then Some n else None)
      else None)"

text \<open>
  The two \<open>ORDER BY\<close> expressions of \<open>sql_find_seat\<close>; texts compare character by
  character in code order.
\<close>

definition seat_order_key :: "string \<Rightarrow> (int \<times> string) option" where
  "seat_order_key lugar =
     map_option (\<lambda>n. (n, regexp_replace lugar is_digit)) (cast_integer (regexp_replace lugar is_upper))"

definition seat_taken :: "db \<Rightarrow> int \<Rightarrow> assento \<Rightarrow> bool" where
  "seat_taken d voo_id a \<longleftrightarrow>
     list_ex (\<lambda>b_ocupado. b_voo_id b_ocupado = voo_id \<and>
                          b_lugar b_ocupado = Some (a_lugar a) \<and>
                          b_no_serie b_ocupado = Some (a_no_serie a)) (bilhetes d)"

definition seat_candidates :: "db \<Rightarrow> string \<Rightarrow> bool \<Rightarrow> int \<Rightarrow> assento list" where
  "seat_candidates d no_serie prim_classe voo_id =
     filter (\<lambda>a. a_no_serie a = no_serie \<and> a_prim_classe a = prim_classe \<and> \<not> seat_taken d voo_id a)
       (assentos d)"

definition sql_find_seat :: "db \<Rightarrow> string \<Rightarrow> bool \<Rightarrow> int \<Rightarrow> exn + string list" where
  "sql_find_seat d no_serie prim_classe voo_id =
     (case those (map (\<lambda>a. map_option (\<lambda>k. (k, a_lugar a)) (seat_order_key (a_lugar a)))
                    (seat_candidates d no_serie prim_classe voo_id)) of
        None \<Rightarrow> Inl (PgError ''22P02'')
      | Some keyed \<Rightarrow> Inr (take 1 (map snd (sort_key fst keyed))))"

datatype checkin_response =
    Ticket_not_found
  | Already_checked_in string
  | Flight_departed
  | No_seats
  | Checked_in int string string
  | Checkin_failed exn

fun checkin_status :: "checkin_response \<Rightarrow> nat" where
  "checkin_status Ticket_not_found = 404"
| "checkin_status (Already_checked_in _) = 409"
| "checkin_status Flight_departed = 409"
| "checkin_status No_seats = 409"
| "checkin_status (Checked_in _ _ _) = 200"
| "checkin_status (Checkin_failed e) = handle_general_exception e"

text \<open>\<open>UPDATE bilhete SET lugar = %s, no_serie = %s WHERE id = %s\<close>\<close>

definition set_seat :: "int \<Rightarrow> string \<Rightarrow> string \<Rightarrow> bilhete \<Rightarrow> bilhete" where
  "set_seat bilhete_id lugar no_serie b =
     (if b_id b = bilhete_id then b\<lparr>b_lugar := Some lugar, b_no_serie := Some no_serie\<rparr> else b)"

definition update_bilhete :: "engine \<Rightarrow> db \<Rightarrow> int \<Rightarrow> string \<Rightarrow> string \<Rightarrow> (exn + unit) \<times> db" where
  "update_bilhete eng d bilhete_id lugar no_serie =
     (case List.map_filter (\<lambda>b. if b_id b = bilhete_id
                                  then update_check eng d (set_seat bilhete_id lugar no_serie b)
                                  else None) (bilhetes d) of
        pgcode # _ \<Rightarrow> (Inl (PgError pgcode), d)
      | [] \<Rightarrow> (Inr (), d\<lparr>bilhetes := map (set_seat bilhete_id lugar no_serie) (bilhetes d)\<rparr>))"

text \<open>
  \<open>SELECT ... FROM bilhete b JOIN voo v ON b.voo_id = v.id WHERE b.id = %s FOR UPDATE OF b\<close>
\<close>

definition select_bilhete :: "db \<Rightarrow> int \<Rightarrow> (bilhete \<times> voo) list" where
  "select_bilhete d bilhete_id =
     [(b, v). b \<leftarrow> bilhetes d, v \<leftarrow> voos d, b_voo_id b = v_id v \<and> b_id b = bilhete_id]"

text \<open>The body of the transaction of \<open>checkin_ticket\<close>.\<close>

definition checkin_transaction ::
  "engine \<Rightarrow> db \<Rightarrow> timestamp \<Rightarrow> int \<Rightarrow> (exn + checkin_response) \<times> db" where
  "checkin_transaction eng d hora_atual_db bilhete_id =
     (case select_bilhete d bilhete_id of
        [] \<Rightarrow> (Inr Ticket_not_found, d)
      | (b, v) # _ \<Rightarrow>
          (case b_lugar b of
             Some lugar \<Rightarrow> (Inr (Already_checked_in lugar), d)
           | None \<Rightarrow>
               if hora_atual_db \<ge> v_hora_partida v then (Inr Flight_departed, d)
               else
                 (case sql_find_seat d (v_no_serie v) (b_prim_classe b) (b_voo_id b) of
                    Inl e \<Rightarrow> (Inl e, d)
                  | Inr [] \<Rightarrow> (Inr No_seats, d)
                  | Inr (lugar_atribuido # _) \<Rightarrow>
                      (case update_bilhete eng d bilhete_id lugar_atribuido (v_no_serie v) of
                         (Inl e, d1) \<Rightarrow> (Inl e, d1)
                       | (Inr _, d1) \<Rightarrow>
                           (Inr (Checked_in bilhete_id lugar_atribuido (v_no_serie v)), d1)))))"

definition checkin_ticket :: "engine \<Rightarrow> db \<Rightarrow> timestamp \<Rightarrow> int \<Rightarrow> checkin_response \<times> db" where
  "checkin_ticket eng d now bilhete_id =
     (case with_transaction d (checkin_transaction eng d now bilhete_id) of
        (Inl e, d') \<Rightarrow> (Checkin_failed e, d')
      | (Inr response, d') \<Rightarrow> (response, d'))"

text \<open>
  Two requests at the same time. \<open>db_pool\<close> opens its connections with the default
  isolation level of the storage engine, Read Committed, where every statement reads
  the rows committed before it starts. \<open>FOR UPDATE OF b\<close> locks the one ticket row the
  request names, so that requests for different tickets do not wait for each other
  (\<open>purchase_tickets\<close> locks the row of the flight, \<open>FOR UPDATE\<close> on \<open>voo\<close>, and the
  purchases of one flight run one after the other). The transaction of
  \<open>checkin_ticket\<close> is therefore split where another transaction can come between:
  \<open>checkin_select\<close> has its statements up to the seat query and gives either the answer
  of an early \<open>return\<close> (or the exception), or the seat and the aircraft to write;
  \<open>checkin_update\<close> has the \<open>UPDATE\<close>, the end of the transaction and the answer.
\<close>

definition checkin_select ::
  "db \<Rightarrow> timestamp \<Rightarrow> int \<Rightarrow> (exn + checkin_response) + string \<times> string" where
  "checkin_select d hora_atual_db bilhete_id =
     (case select_bilhete d bilhete_id of
        [] \<Rightarrow> Inl (Inr Ticket_not_found)
      | (b, v) # _ \<Rightarrow>
          (case b_lugar b of
             Some lugar \<Rightarrow> Inl (Inr (Already_checked_in lugar))
           | None \<Rightarrow>
               if hora_atual_db \<ge> v_hora_partida v then Inl (Inr Flight_departed)
               else
                 (case sql_find_seat d (v_no_serie v) (b_prim_classe b) (b_voo_id b) of
                    Inl e \<Rightarrow> Inl (Inl e)
                  | Inr [] \<Rightarrow> Inl (Inr No_seats)
                  | Inr (lugar_atribuido # _) \<Rightarrow> Inr (lugar_atribuido, v_no_serie v))))"

definition checkin_update ::
  "engine \<Rightarrow> db \<Rightarrow> int \<Rightarrow> (exn + checkin_response) + string \<times> string \<Rightarrow>
     checkin_response \<times> db" where
  "checkin_update eng d bilhete_id pending =
     (case with_transaction d
        (case pending of
           Inl response \<Rightarrow> (response, d)
         | Inr (lugar_atribuido, no_serie) \<Rightarrow>
             (case update_bilhete eng d bilhete_id lugar_atribuido no_serie of
                (Inl e, d1) \<Rightarrow> (Inl e, d1)
              | (Inr _, d1) \<Rightarrow> (Inr (Checked_in bilhete_id lugar_atribuido no_serie), d1))) of
        (Inl e, d') \<Rightarrow> (Checkin_failed e, d')
      | (Inr response, d') \<Rightarrow> (response, d'))"

text \<open>
  The schedule in which both requests read before either writes: the two seat queries
  see the same rows, then the first request writes and commits, then the second.
\<close>

definition interleaved_checkins ::
  "engine \<Rightarrow> db \<Rightarrow> timestamp \<Rightarrow> int \<Rightarrow> int \<Rightarrow> checkin_response \<times> checkin_response \<times> db" where
  "interleaved_checkins eng d now bilhete_1 bilhete_2 =
     (let pending_1 = checkin_select d now bilhete_1;
          pending_2 = checkin_select d now bilhete_2;
          (response_1, d1) = checkin_update eng d bilhete_1 pending_1;
          (response_2, d2) = checkin_update eng d1 bilhete_2 pending_2
      in (response_1, response_2, d2))"

section \<open>A small airline\<close>

text \<open>
  Two airports, one aircraft with three economy seats and one first-class seat, one
  flight from LIS to OPO leaving at time 100, one sale and its ticket, not yet
  checked in. The seat labels satisfy the \<open>CHECK\<close> of the schema,
  \<open>^[0-9]{1,2}[A-Z]$\<close>.
\<close>

definition example_db :: db where
  "example_db =
     \<lparr>aeroportos =
        [\<lparr>ae_codigo = ''LIS'', ae_nome = ''Lisbon Airport'', ae_cidade = ''Lisbon'',
          ae_pais = ''Portugal''\<rparr>,
         \<lparr>ae_codigo = ''OPO'', ae_nome = ''Porto Airport'', ae_cidade = ''Porto'',
          ae_pais = ''Portugal''\<rparr>],
      avioes = [\<lparr>av_no_serie = ''AIRB-001'', av_modelo = ''Airbus A320neo''\<rparr>],
      assentos =
        [\<lparr>a_lugar = ''1A'', a_no_serie = ''AIRB-001'', a_prim_classe = True\<rparr>,
         \<lparr>a_lugar = ''2A'', a_no_serie = ''AIRB-001'', a_prim_classe = False\<rparr>,
         \<lparr>a_lugar = ''02B'', a_no_serie = ''AIRB-001'', a_prim_classe = False\<rparr>,
         \<lparr>a_lugar = ''10A'', a_no_serie = ''AIRB-001'', a_prim_classe = False\<rparr>],
      voos =
        [\<lparr>v_id = 1, v_no_serie = ''AIRB-001'', v_hora_partida = 100, v_hora_chegada = 200,
          v_partida = ''LIS'', v_chegada = ''OPO''\<rparr>],
      vendas =
        [\<lparr>s_codigo_reserva = 1, s_nif_cliente = ''123456789'', s_balcao = ''LIS'', s_hora = 5\<rparr>],
      bilhetes =
        [\<lparr>b_id = 7, b_voo_id = 1, b_codigo_reserva = 1, b_nome_passegeiro = ''Ana Silva'',
          b_preco = 150, b_prim_classe = False, b_lugar = None,
          b_no_serie = Some ''AIRB-001''\<rparr>],
      venda_seq = 1,
      bilhete_seq = 7\<rparr>"

text \<open>The row number and the cabin letter of a seat label, as the schema writes it.\<close>

definition row_number :: "string \<Rightarrow> int option" where
  "row_number lugar = cast_integer (takeWhile is_digit lugar)"

definition cabin_letter :: "string \<Rightarrow> string" where
  "cabin_letter lugar = dropWhile is_digit lugar"

text \<open>A letter: a character that has a case.\<close>

definition is_letter :: "char \<Rightarrow> bool" where
  "is_letter c \<longleftrightarrow> is_lower c \<or> is_upper c"

text \<open>
  The row that a purchase stores for one entry of the request, given the summary the
  response reports for it.
\<close>

definition ticket_row :: "int \<Rightarrow> int \<Rightarrow> string \<Rightarrow> ticket_summary \<Rightarrow> string \<times> bool \<Rightarrow> bilhete" where
  "ticket_row voo_id codigo_reserva no_serie t entry =
     \<lparr>b_id = t_id_bilhete t, b_voo_id = voo_id, b_codigo_reserva = codigo_reserva,
      b_nome_passegeiro = fst entry, b_preco = (if snd entry then 500 else 150),
      b_prim_classe = snd entry, b_lugar = None, b_no_serie = Some no_serie\<rparr>"

text \<open>Request bodies: one passenger; the same passenger twice; a tax id of five digits.\<close>

definition one_ticket_body :: json where
  "one_ticket_body =
     JObj [(''nif_cliente'', JStr ''123456789''),
           (''bilhetes_a_comprar'',
            JArr [JObj [(''nome_passageiro'', JStr ''Rui Costa''), (''prim_classe'', JBool False)]])]"

definition duplicate_body :: json where
  "duplicate_body =
     JObj [(''nif_cliente'', JStr ''123456789''),
           (''bilhetes_a_comprar'',
            JArr [JObj [(''nome_passageiro'', JStr ''Rui Costa''), (''prim_classe'', JBool False)],
                  JObj [(''nome_passageiro'', JStr ''Rui Costa''), (''prim_classe'', JBool True)]])]"

definition short_nif_body :: json where
  "short_nif_body =
     JObj [(''nif_cliente'', JStr ''12345''),
           (''bilhetes_a_comprar'',
            JArr [JObj [(''nome_passageiro'', JStr ''Rui Costa''), (''prim_classe'', JBool False)]])]"

text \<open>\<open>example_db\<close> after ticket 7 was checked in to seat 02B.\<close>

definition checked_in_db :: db where
  "checked_in_db =
     example_db\<lparr>bilhetes :=
       [\<lparr>b_id = 7, b_voo_id = 1, b_codigo_reserva = 1, b_nome_passegeiro = ''Ana Silva'',
         b_preco = 150, b_prim_classe = False, b_lugar = Some ''02B'',
         b_no_serie = Some ''AIRB-001''\<rparr>]\<rparr>"

text \<open>
  \<open>example_db\<close> with three economy tickets on flight 1: tickets 7 and 8 are not checked
  in, ticket 9 has seat 02B. Two economy seats are free, 2A and 10A.
\<close>

definition race_db :: db where
  "race_db =
     example_db\<lparr>bilhetes :=
       [\<lparr>b_id = 7, b_voo_id = 1, b_codigo_reserva = 1, b_nome_passegeiro = ''Ana Silva'',
         b_preco = 150, b_prim_classe = False, b_lugar = None,
         b_no_serie = Some ''AIRB-001''\<rparr>,
        \<lparr>b_id = 8, b_voo_id = 1, b_codigo_reserva = 1, b_nome_passegeiro = ''Rui Costa'',
         b_preco = 150, b_prim_classe = False, b_lugar = None,
         b_no_serie = Some ''AIRB-001''\<rparr>,
        \<lparr>b_id = 9, b_voo_id = 1, b_codigo_reserva = 1, b_nome_passegeiro = ''Eva Lopes'',
         b_preco = 150, b_prim_classe = False, b_lugar = Some ''02B'',
         b_no_serie = Some ''AIRB-001''\<rparr>],
       bilhete_seq := 9\<rparr>"




section \<open>Seat selection at check-in\<close>

text \<open>
  C1. Check-in picks, among the free seats of the ticket's class, the first by row
  number and then by cabin letter. The second \<open>ORDER BY\<close> expression removes only the
  first digit of the label, so it is the cabin letter only when the row is written
  with one digit. In \<open>example_db\<close> the free economy seats 2A and 02B are both in
  row 2 and 2A has the lower letter; check-in of ticket 7 assigns 02B, whose second
  sort key is the text 2B, before the text A of seat 2A.
\<close>

theorem checkin_seat_order_leading_zero:
  "fst (checkin_ticket schema_engine example_db 10 7) = Checked_in 7 ''02B'' ''AIRB-001'' \<and>
   ''2A'' \<in> set (map a_lugar (seat_candidates example_db ''AIRB-001'' False 1)) \<and>
   row_number ''2A'' = row_number ''02B'' \<and>
   cabin_letter ''2A'' < cabin_letter ''02B'' \<and>
   seat_order_key ''2A'' = Some (2, ''A'') \<and>
   seat_order_key ''02B'' = Some (2, ''2B'')"
  by code_simp

section \<open>Validation of the purchase body\<close>

text \<open>
  C6. A body that fails validation is answered with 400. A body that is a non-empty
  JSON array is truthy, so \<open>data.get\<close> is called on a list: the handler raises
  \<open>AttributeError\<close>, which the general handler answers with 500. The stored state
  is not touched.
\<close>

theorem purchase_array_body_500:
  "purchase_tickets eng d now voo_id (JArr [JNum 1]) = (Purchase_failed AttributeError, d) \<and>
   purchase_status (Purchase_failed AttributeError) = 500"
  by (simp add: purchase_tickets_def payload_check_def)

lemma first_invalid_None: "first_invalid i xs = None \<longleftrightarrow> \<not> list_ex ticket_invalid xs"
  by (induction xs arbitrary: i) auto

text \<open>
  A body that is a JSON object is answered with 400, and nothing is stored, when the
  tax id, the list or one of its entries fails the checks.
\<close>

lemma purchase_rejects_invalid_object:
  assumes "\<not> truthy (JObj kvs) \<or>
           nif_invalid (dict_get kvs ''nif_cliente'') \<or>
           list_invalid (dict_get kvs ''bilhetes_a_comprar'') \<or>
           list_ex ticket_invalid (items_of (dict_get kvs ''bilhetes_a_comprar''))"
  shows "purchase_status (fst (purchase_tickets eng d now voo_id (JObj kvs))) = 400 \<and>
         snd (purchase_tickets eng d now voo_id (JObj kvs)) = d"
proof -
  from assms have "\<exists>r. payload_check (JObj kvs) = Inl r \<and> purchase_status r = 400"
    by (cases "first_invalid 0 (items_of (dict_get kvs ''bilhetes_a_comprar''))")
       (auto simp: payload_check_def Let_def first_invalid_None)
  then show ?thesis by (auto simp: purchase_tickets_def)
qed

section \<open>The format of airport codes\<close>

lemma upper_not_lower: "is_upper c \<Longrightarrow> \<not> is_lower c"
  by (auto simp: is_upper_def is_lower_def less_eq_char_def)

lemma upper_char_upper: "is_upper c \<Longrightarrow> upper_char c = c"
  by (simp add: upper_char_def upper_not_lower)

lemma upper_char_lower: "is_lower c \<Longrightarrow> is_upper (upper_char c)"
  by (auto simp: upper_char_def is_upper_def is_lower_def less_eq_char_def)

lemma upper_char_not_lower: "\<not> is_lower (upper_char c)"
proof (cases "is_lower c")
  case True
  then show ?thesis using upper_char_lower upper_not_lower by blast
next
  case False
  then show ?thesis by (simp add: upper_char_def)
qed

lemma upper_char_is_upper: "is_upper (upper_char c) \<longleftrightarrow> is_letter c"
  by (auto simp: is_letter_def upper_char_lower upper_char_upper)
     (simp add: upper_char_def split: if_splits)

lemma py_isupper_py_upper: "py_isupper (py_upper s) \<longleftrightarrow> list_ex is_letter s"
  by (simp add: py_isupper_def py_upper_def list_ex_iff upper_char_not_lower upper_char_is_upper)




text \<open>
  C7 as stated fails: the codes are upper-cased before they are checked, so a request
  with the lowercase codes lis and xyz, of which XYZ is no airport, is answered with
  404 although neither code is three uppercase letters.
\<close>

theorem lowercase_codes_404:
  "listing_status (list_next_available_flights example_db 10 ''lis'' ''xyz'') = 404 \<and>
   \<not> airport_code_format ''lis'' \<and> \<not> airport_code_format ''xyz''"
  by code_simp

text \<open>
  C7, amended. Equal origin and destination codes are answered with 400, whether or not
  the airports exist. A 404 is returned only when the upper-cased codes pass the format
  check of the handler (three characters, \<open>isupper\<close>), differ, and at least one of them
  is the code of no airport.
\<close>

theorem next_available_equal_codes:
  "(partida_codigo = chegada_codigo \<longrightarrow>
      listing_status (list_next_available_flights d now partida_codigo chegada_codigo) = 400) \<and>
   (listing_status (list_next_available_flights d now partida_codigo chegada_codigo) = 404 \<longrightarrow>
      length (py_upper partida_codigo) = 3 \<and> py_isupper (py_upper partida_codigo) \<and>
      length (py_upper chegada_codigo) = 3 \<and> py_isupper (py_upper chegada_codigo) \<and>
      py_upper partida_codigo \<noteq> py_upper chegada_codigo \<and>
      (aeroporto_count d (py_upper partida_codigo) = 0 \<or>
       aeroporto_count d (py_upper chegada_codigo) = 0))"
  by (auto simp: list_next_available_flights_def Let_def split: if_splits)

theorem next_available_equal_codes_witness:
  "listing_status (list_next_available_flights example_db 10 ''XYZ'' ''XYZ'') = 400 \<and>
   aeroporto_count example_db ''XYZ'' = 0 \<and>
   listing_status (list_next_available_flights example_db 10 ''LIS'' ''XYZ'') = 404 \<and>
   py_upper ''LIS'' \<noteq> py_upper ''XYZ'' \<and> length (py_upper ''LIS'') = 3"
proof -
  have h: "listing_status (list_next_available_flights example_db 10 ''LIS'' ''XYZ'') = 404"
    by code_simp
  have c: "aeroporto_count example_db ''XYZ'' = 0"
    by code_simp
  from next_available_equal_codes [of "''XYZ''" "''XYZ''" example_db 10]
    next_available_equal_codes [of "''LIS''" "''XYZ''" example_db 10] h c
  show ?thesis by blast
qed


text \<open>
  On the route with one code the parameter is checked as it was sent, and \<open>isupper\<close>
  asks for one uppercase letter and no lowercase letter: a digit is let through, although
  the message of the handler asks for three uppercase letters.
\<close>

lemma departure_code_with_digit_passes:
  "list_flights_from_departure example_db 10 ''L1S'' = Unknown_airport False True \<and>
   \<not> airport_code_format ''L1S''"
  by code_simp





section \<open>The purchase transaction\<close>

lemma filter_key_distinct:
  "distinct (map f xs) \<Longrightarrow> x \<in> set xs \<Longrightarrow> filter (\<lambda>y. f y = f x) xs = [x]"
proof (induction xs)
  case Nil
  then show ?case by simp
next
  case (Cons a xs)
  show ?case
  proof (cases "a = x")
    case True
    with Cons.prems have "\<forall>y\<in>set xs. f y \<noteq> f x" by (auto simp: image_iff)
    then have "filter (\<lambda>y. f y = f x) xs = []" by (simp add: filter_empty_conv)
    with True show ?thesis by simp
  next
    case False
    with Cons.prems have "x \<in> set xs" "f a \<noteq> f x" "distinct (map f xs)" by (auto simp: image_iff)
    with Cons.IH show ?thesis by simp
  qed
qed

lemma insert_venda_ok:
  "insert_venda eng d nif balcao hora = (Inr codigo, d1) \<Longrightarrow>
     vendas d1 = vendas d @ [\<lparr>s_codigo_reserva = codigo, s_nif_cliente = nif, s_balcao = balcao, s_hora = hora\<rparr>] \<and>
     aeroportos d1 = aeroportos d \<and> avioes d1 = avioes d \<and> assentos d1 = assentos d \<and>
     voos d1 = voos d \<and> bilhetes d1 = bilhetes d"
  by (auto simp: insert_venda_def Let_def split: option.splits)

lemma insert_venda_error:
  "insert_venda eng d nif balcao hora = (Inl e, d1) \<Longrightarrow> \<exists>pgcode. e = PgError pgcode"
  by (auto simp: insert_venda_def Let_def split: option.splits)

lemma insert_bilhete_ok:
  "insert_bilhete eng d voo_id codigo nome preco cls ns = (Inr new_id, d1) \<Longrightarrow>
     bilhetes d1 = bilhetes d @ [\<lparr>b_id = new_id, b_voo_id = voo_id, b_codigo_reserva = codigo,
                 b_nome_passegeiro = nome, b_preco = preco,
                 b_prim_classe = cls, b_lugar = None, b_no_serie = Some ns\<rparr>] \<and>
     aeroportos d1 = aeroportos d \<and> avioes d1 = avioes d \<and> assentos d1 = assentos d \<and>
     voos d1 = voos d \<and> vendas d1 = vendas d"
  by (auto simp: insert_bilhete_def Let_def split: option.splits)

lemma insert_bilhete_error:
  "insert_bilhete eng d voo_id codigo nome preco cls ns = (Inl e, d1) \<Longrightarrow> \<exists>pgcode. e = PgError pgcode"
  by (auto simp: insert_bilhete_def Let_def split: option.splits)

lemma insert_bilhetes_error:
  "insert_bilhetes eng d voo_id codigo ns entries detalhes = (Inl e, d') \<Longrightarrow> \<exists>pgcode. e = PgError pgcode"
proof (induction entries arbitrary: d detalhes)
  case Nil
  then show ?case by simp
next
  case (Cons x xs)
  obtain nome cls where x: "x = (nome, cls)" by (cases x)
  obtain r d1 where r: "insert_bilhete eng d voo_id codigo nome (if cls then 500 else 150) cls ns = (r, d1)"
    by (cases "insert_bilhete eng d voo_id codigo nome (if cls then 500 else 150) cls ns")
  show ?case
  proof (cases r)
    case (Inl e1)
    with Cons.prems x r have "e = e1" by (simp add: Let_def)
    with Inl r insert_bilhete_error show ?thesis by blast
  next
    case (Inr i)
    with Cons.prems x r Cons.IH show ?thesis by (simp add: Let_def)
  qed
qed

lemma insert_bilhetes_ok:
  "insert_bilhetes eng d voo_id codigo ns entries detalhes = (Inr out, d') \<Longrightarrow>
     \<exists>new. out = detalhes @ new \<and> length new = length entries \<and>
       bilhetes d' = bilhetes d @ map2 (ticket_row voo_id codigo ns) new entries \<and>
       aeroportos d' = aeroportos d \<and> avioes d' = avioes d \<and> assentos d' = assentos d \<and>
       voos d' = voos d \<and> vendas d' = vendas d"
proof (induction entries arbitrary: d detalhes)
  case Nil
  then show ?case by simp
next
  case (Cons x xs)
  obtain nome cls where x: "x = (nome, cls)" by (cases x)
  let ?p = "if cls then 500 else 150 :: int"
  obtain r d1 where r: "insert_bilhete eng d voo_id codigo nome ?p cls ns = (r, d1)"
    by (cases "insert_bilhete eng d voo_id codigo nome ?p cls ns")
  show ?case
  proof (cases r)
    case (Inl e1)
    with Cons.prems x r show ?thesis by (simp add: Let_def)
  next
    case (Inr i)
    let ?t = "\<lparr>t_id_bilhete = i, t_passageiro = nome,
                 t_classe = (if cls then Primeira else Economica), t_preco = ?p\<rparr>"
    from Cons.prems x r Inr
    have rec: "insert_bilhetes eng d1 voo_id codigo ns xs (detalhes @ [?t]) = (Inr out, d')"
      by (simp add: Let_def)
    from Cons.IH [OF rec] obtain new where new:
      "out = (detalhes @ [?t]) @ new" "length new = length xs"
      "bilhetes d' = bilhetes d1 @ map2 (ticket_row voo_id codigo ns) new xs"
      "aeroportos d' = aeroportos d1" "avioes d' = avioes d1" "assentos d' = assentos d1"
      "voos d' = voos d1" "vendas d' = vendas d1" by blast
    from r Inr insert_bilhete_ok [of eng d voo_id codigo nome ?p cls ns i d1]
    have one: "bilhetes d1 = bilhetes d @ [ticket_row voo_id codigo ns ?t (nome, cls)]"
      "aeroportos d1 = aeroportos d" "avioes d1 = avioes d" "assentos d1 = assentos d"
      "voos d1 = voos d" "vendas d1 = vendas d"
      by (simp_all add: ticket_row_def)
    show ?thesis
      by (rule exI [of _ "?t # new"]) (simp add: new one x)
  qed
qed

lemma purchase_transaction_cases:
  assumes "purchase_transaction eng d now voo_id nif entries = (r, d')"
  shows "(r = Inr Flight_not_found \<and> d' = d \<and> filter (\<lambda>v. v_id v = voo_id) (voos d) = []) \<or>
         (\<exists>voo_info rest. filter (\<lambda>v. v_id v = voo_id) (voos d) = voo_info # rest \<and>
            ((r = Inr Sales_closed \<and> d' = d \<and> now \<ge> v_hora_partida voo_info) \<or>
             (now < v_hora_partida voo_info \<and>
               ((\<exists>pgcode. r = Inl (PgError pgcode)) \<or>
                (\<exists>codigo detalhes. r = Inr (Purchased codigo detalhes) \<and>
                    length detalhes = length entries \<and>
                    vendas d' = vendas d @ [\<lparr>s_codigo_reserva = codigo, s_nif_cliente = nif,
                         s_balcao = v_partida voo_info, s_hora = now\<rparr>] \<and>
                    bilhetes d' = bilhetes d @ map2 (ticket_row voo_id codigo (v_no_serie voo_info)) detalhes entries \<and>
                    aeroportos d' = aeroportos d \<and> avioes d' = avioes d \<and>
                    assentos d' = assentos d \<and> voos d' = voos d)))))"
proof (cases "filter (\<lambda>v. v_id v = voo_id) (voos d)")
  case Nil
  with assms show ?thesis by (auto simp: purchase_transaction_def)
next
  case (Cons voo_info rest)
  show ?thesis
  proof (cases "now \<ge> v_hora_partida voo_info")
    case True
    with assms Cons show ?thesis by (auto simp: purchase_transaction_def)
  next
    case False
    obtain rv d1 where rv: "insert_venda eng d nif (v_partida voo_info) now = (rv, d1)"
      by (cases "insert_venda eng d nif (v_partida voo_info) now")
    show ?thesis
    proof (cases rv)
      case (Inl e)
      with assms Cons False rv have "r = Inl e" by (simp add: purchase_transaction_def)
      with Inl rv insert_venda_error Cons False show ?thesis by fastforce
    next
      case (Inr codigo)
      note v = insert_venda_ok [OF rv [unfolded Inr]]
      obtain rb d2 where rb: "insert_bilhetes eng d1 voo_id codigo (v_no_serie voo_info) entries [] = (rb, d2)"
        by (cases "insert_bilhetes eng d1 voo_id codigo (v_no_serie voo_info) entries []")
      show ?thesis
      proof (cases rb)
        case (Inl e)
        with assms Cons False rv Inr rb have "r = Inl e" by (simp add: purchase_transaction_def)
        with Inl rb insert_bilhetes_error Cons False show ?thesis by fastforce
      next
        case (Inr detalhes)
        with assms Cons False rv \<open>rv = Inr codigo\<close> rb
        have r: "r = Inr (Purchased codigo detalhes)" "d' = d2" by (simp_all add: purchase_transaction_def)
        from insert_bilhetes_ok [OF rb [unfolded Inr]] obtain new where
          "detalhes = [] @ new" "length new = length entries"
          "bilhetes d2 = bilhetes d1 @ map2 (ticket_row voo_id codigo (v_no_serie voo_info)) new entries"
          "aeroportos d2 = aeroportos d1" "avioes d2 = avioes d1" "assentos d2 = assentos d1"
          "voos d2 = voos d1" "vendas d2 = vendas d1" by blast
        with v r Cons False show ?thesis by simp
      qed
    qed
  qed
qed

lemma rollback_same_rows: "same_rows d (rollback d working)"
  by (simp add: same_rows_def rollback_def)

lemma same_rows_refl: "same_rows d d"
  by (simp add: same_rows_def)

text \<open>
  C2 as stated fails: the body is validated before the flight is looked at, so a
  request with a tax id of five digits for flight 1, at its departure time, is
  answered with 400 and not with 409. Nothing is stored.
\<close>

theorem purchase_invalid_body_after_departure:
  "map v_id (voos example_db) = [1] \<and>
   map v_hora_partida (voos example_db) = [100] \<and>
   purchase_tickets schema_engine example_db 100 1 short_nif_body = (Invalid_nif, example_db) \<and>
   purchase_status Invalid_nif = 400"
  by code_simp

text \<open>
  C2, amended. For a purchase request that passes the validation of its body, on an
  existing flight: when the storage engine's clock is at or after the departure time,
  the answer is 409 and the stored state is the one before the request; when it is
  before the departure time, the cutoff check passes: the answer is the reservation,
  or the error of a row that the storage engine refused.
\<close>

theorem purchase_cutoff:
  assumes "payload_check data = Inr (nif_cliente, entries)"
    and "pk_voo d" and "voo_info \<in> set (voos d)" and "v_id voo_info = voo_id"
  shows "(now \<ge> v_hora_partida voo_info \<longrightarrow>
            purchase_tickets eng d now voo_id data = (Sales_closed, d) \<and>
            purchase_status Sales_closed = 409) \<and>
         (now < v_hora_partida voo_info \<longrightarrow>
            (\<exists>codigo_reserva detalhes.
               fst (purchase_tickets eng d now voo_id data) = Purchased codigo_reserva detalhes) \<or>
            (\<exists>pgcode. fst (purchase_tickets eng d now voo_id data) = Purchase_failed (PgError pgcode)))"
proof -
  from assms(2-4) have f: "filter (\<lambda>v. v_id v = voo_id) (voos d) = [voo_info]"
    using filter_key_distinct [of v_id "voos d" voo_info] by (simp add: pk_voo_def)
  obtain r w where t: "purchase_transaction eng d now voo_id nif_cliente entries = (r, w)"
    by (cases "purchase_transaction eng d now voo_id nif_cliente entries")
  have res: "purchase_tickets eng d now voo_id data =
      (case r of Inl e \<Rightarrow> (Purchase_failed e, rollback d w) | Inr resp \<Rightarrow> (resp, w))"
    using assms(1) t by (simp add: purchase_tickets_def with_transaction_def split: sum.splits)
  show ?thesis
  proof (intro conjI impI)
    assume late: "now \<ge> v_hora_partida voo_info"
    with purchase_transaction_cases [OF t] f have "r = Inr Sales_closed" "w = d" by auto
    with res show "purchase_tickets eng d now voo_id data = (Sales_closed, d)" by simp
    show "purchase_status Sales_closed = 409" by simp
  next
    assume early: "now < v_hora_partida voo_info"
    with purchase_transaction_cases [OF t] f
    have "(\<exists>pgcode. r = Inl (PgError pgcode)) \<or> (\<exists>c ts. r = Inr (Purchased c ts))" by auto
    with res show "(\<exists>codigo_reserva detalhes.
               fst (purchase_tickets eng d now voo_id data) = Purchased codigo_reserva detalhes) \<or>
            (\<exists>pgcode. fst (purchase_tickets eng d now voo_id data) = Purchase_failed (PgError pgcode))"
      by auto
  qed
qed

theorem purchase_cutoff_witness:
  "purchase_tickets schema_engine example_db 100 1 one_ticket_body = (Sales_closed, example_db) \<and>
   purchase_status Sales_closed = 409 \<and>
   purchase_tickets schema_engine example_db 101 1 one_ticket_body = (Sales_closed, example_db) \<and>
   fst (purchase_tickets schema_engine example_db 99 1 one_ticket_body) \<noteq> Sales_closed"
proof -
  let ?v = "\<lparr>v_id = 1, v_no_serie = ''AIRB-001'', v_hora_partida = 100, v_hora_chegada = 200,
        v_partida = ''LIS'', v_chegada = ''OPO''\<rparr>"
  have body: "payload_check one_ticket_body = Inr (''123456789'', [(''Rui Costa'', False)])"
    by code_simp
  have pk: "pk_voo example_db"
    by code_simp
  have v: "?v \<in> set (voos example_db)" "v_id ?v = 1" "v_hora_partida ?v = 100"
    by code_simp+
  note c = purchase_cutoff [OF body pk v(1) v(2), of _ schema_engine, unfolded v(3)]
  from c [of 100] c [of 101] c [of 99] show ?thesis by auto
qed

text \<open>
  C3. A purchase is all or nothing. When it answers with a reservation code, the stored
  sales are the former ones and one more, with that code, the client's tax id, the
  departure airport of the flight and the time of the storage engine's clock; the stored
  tickets are the former ones and one more per entry of the request, in the order of the
  request, each on this flight, for this reservation, with the passenger and class of
  its entry and no seat (\<open>ticket_row\<close>); no other table changes. With any other
  answer, the rows stored are those before the request.
\<close>

theorem purchase_all_or_nothing:
  assumes "purchase_tickets eng d now voo_id data = (response, d')"
  shows "case response of
           Purchased codigo_reserva detalhes \<Rightarrow>
             (\<exists>nif_cliente entries voo_info rest.
                payload_check data = Inr (nif_cliente, entries) \<and>
                filter (\<lambda>v. v_id v = voo_id) (voos d) = voo_info # rest \<and>
                vendas d' = vendas d @
                  [\<lparr>s_codigo_reserva = codigo_reserva, s_nif_cliente = nif_cliente,
                    s_balcao = v_partida voo_info, s_hora = now\<rparr>] \<and>
                length detalhes = length entries \<and>
                bilhetes d' = bilhetes d @
                  map2 (ticket_row voo_id codigo_reserva (v_no_serie voo_info)) detalhes entries \<and>
                aeroportos d' = aeroportos d \<and> avioes d' = avioes d \<and>
                assentos d' = assentos d \<and> voos d' = voos d)
         | _ \<Rightarrow> same_rows d d'"
proof (cases "payload_check data")
  case (Inl rejected)
  with assms have r: "response = rejected" "d' = d" by (simp_all add: purchase_tickets_def)
  from Inl have "\<forall>c ts. rejected \<noteq> Purchased c ts"
    by (auto simp: payload_check_def Let_def split: if_splits json.splits option.splits)
  with r show ?thesis by (cases rejected) (simp_all add: same_rows_refl)
next
  case (Inr p)
  obtain nif entries where p: "p = (nif, entries)" by (cases p)
  obtain r w where t: "purchase_transaction eng d now voo_id nif entries = (r, w)"
    by (cases "purchase_transaction eng d now voo_id nif entries")
  show ?thesis
  proof (cases r)
    case (Inl e)
    with assms Inr p t have "response = Purchase_failed e" "d' = rollback d w"
      by (simp_all add: purchase_tickets_def with_transaction_def)
    then show ?thesis by (simp add: rollback_same_rows)
  next
    case (Inr resp)
    with assms \<open>payload_check data = Inr p\<close> p t have r: "response = resp" "d' = w"
      by (simp_all add: purchase_tickets_def with_transaction_def)
    from purchase_transaction_cases [OF t] Inr r \<open>payload_check data = Inr p\<close> p
    show ?thesis by (auto simp: same_rows_refl)
  qed
qed

theorem purchase_all_or_nothing_witness:
  "fst (purchase_tickets schema_engine example_db 10 1 one_ticket_body) =
     Purchased 2 [\<lparr>t_id_bilhete = 8, t_passageiro = ''Rui Costa'', t_classe = Economica,
                   t_preco = 150\<rparr>] \<and>
   vendas (snd (purchase_tickets schema_engine example_db 10 1 one_ticket_body)) =
     vendas example_db @
       [\<lparr>s_codigo_reserva = 2, s_nif_cliente = ''123456789'', s_balcao = ''LIS'', s_hora = 10\<rparr>] \<and>
   bilhetes (snd (purchase_tickets schema_engine example_db 10 1 one_ticket_body)) =
     bilhetes example_db @
       [\<lparr>b_id = 8, b_voo_id = 1, b_codigo_reserva = 2, b_nome_passegeiro = ''Rui Costa'',
         b_preco = 150, b_prim_classe = False, b_lugar = None,
         b_no_serie = Some ''AIRB-001''\<rparr>] \<and>
   fst (purchase_tickets schema_engine example_db 10 1 duplicate_body) =
     Purchase_failed (PgError ''23505'') \<and>
   same_rows example_db (snd (purchase_tickets schema_engine example_db 10 1 duplicate_body))"
proof -
  let ?ok = "purchase_tickets schema_engine example_db 10 1 one_ticket_body"
  let ?dup = "purchase_tickets schema_engine example_db 10 1 duplicate_body"
  let ?t = "\<lparr>t_id_bilhete = 8, t_passageiro = ''Rui Costa'', t_classe = Economica,
             t_preco = 150\<rparr>"
  have ok: "fst ?ok = Purchased 2 [?t]"
    by code_simp
  have dup: "fst ?dup = Purchase_failed (PgError ''23505'')"
    by code_simp
  have body: "payload_check one_ticket_body = Inr (''123456789'', [(''Rui Costa'', False)])"
    by code_simp
  have flight: "filter (\<lambda>v. v_id v = 1) (voos example_db) =
      [\<lparr>v_id = 1, v_no_serie = ''AIRB-001'', v_hora_partida = 100, v_hora_chegada = 200,
        v_partida = ''LIS'', v_chegada = ''OPO''\<rparr>]"
    by code_simp
  have "?ok = (Purchased 2 [?t], snd ?ok)"
    using ok by (simp add: prod_eq_iff)
  from purchase_all_or_nothing [OF this] body flight
  have stored:
    "vendas (snd ?ok) = vendas example_db @
       [\<lparr>s_codigo_reserva = 2, s_nif_cliente = ''123456789'', s_balcao = ''LIS'', s_hora = 10\<rparr>]"
    "bilhetes (snd ?ok) = bilhetes example_db @
       [\<lparr>b_id = 8, b_voo_id = 1, b_codigo_reserva = 2, b_nome_passegeiro = ''Rui Costa'',
         b_preco = 150, b_prim_classe = False, b_lugar = None,
         b_no_serie = Some ''AIRB-001''\<rparr>]"
    by (auto simp: ticket_row_def)
  have "?dup = (Purchase_failed (PgError ''23505''), snd ?dup)"
    using dup by (simp add: prod_eq_iff)
  from purchase_all_or_nothing [OF this]
  have "same_rows example_db (snd ?dup)" by simp
  with ok dup stored show ?thesis by simp
qed

section \<open>The check-in transaction\<close>

lemma join_inner:
  "concat (map (\<lambda>v. if P v \<and> Q then [(b, v)] else []) vs) =
     (if Q then map (Pair b) (filter P vs) else [])"
  by (induction vs) auto

lemma join_outer:
  "concat (map (\<lambda>b. if Q b then f b else []) bs) = concat (map f (filter Q bs))"
  by (induction bs) auto

lemma select_bilhete_conv:
  "select_bilhete d bilhete_id =
     concat (map (\<lambda>b. map (Pair b) (filter (\<lambda>v. b_voo_id b = v_id v) (voos d)))
               (filter (\<lambda>b. b_id b = bilhete_id) (bilhetes d)))"
  by (simp add: select_bilhete_def join_inner join_outer)

lemma select_bilhete_pk:
  assumes "pk_bilhete d" and "b \<in> set (bilhetes d)" and "b_id b = bilhete_id"
  shows "select_bilhete d bilhete_id = map (Pair b) (filter (\<lambda>v. b_voo_id b = v_id v) (voos d))"
proof -
  from assms have "filter (\<lambda>y. b_id y = bilhete_id) (bilhetes d) = [b]"
    using filter_key_distinct [of b_id "bilhetes d" b] by (simp add: pk_bilhete_def)
  then show ?thesis by (simp add: select_bilhete_conv)
qed

lemma select_bilhete_row:
  "(b, v) \<in> set (select_bilhete d bilhete_id) \<Longrightarrow>
     b \<in> set (bilhetes d) \<and> v \<in> set (voos d) \<and> b_id b = bilhete_id \<and> v_id v = b_voo_id b"
  by (auto simp: select_bilhete_def split: if_splits)

lemma set_seat_keys [simp]:
  "b_id (set_seat bilhete_id lugar no_serie b) = b_id b"
  "b_voo_id (set_seat bilhete_id lugar no_serie b) = b_voo_id b"
  by (simp_all add: set_seat_def)

lemma select_bilhete_after_update:
  "select_bilhete (d\<lparr>bilhetes := map (set_seat t lugar no_serie) (bilhetes d)\<rparr>) bilhete_id =
     map (\<lambda>(b, v). (set_seat t lugar no_serie b, v)) (select_bilhete d bilhete_id)"
  by (simp add: select_bilhete_conv filter_map comp_def map_concat)

lemma update_bilhete_ok:
  "update_bilhete eng d bilhete_id lugar no_serie = (Inr u, d1) \<Longrightarrow>
     d1 = d\<lparr>bilhetes := map (set_seat bilhete_id lugar no_serie) (bilhetes d)\<rparr>"
  by (auto simp: update_bilhete_def split: list.splits)

lemma checkin_transaction_success:
  assumes "checkin_transaction eng d now bilhete_id = (Inr (Checked_in t lugar aviao), d')"
  shows "\<exists>b v rest more.
           select_bilhete d bilhete_id = (b, v) # rest \<and> b_lugar b = None \<and>
           now < v_hora_partida v \<and> t = bilhete_id \<and> aviao = v_no_serie v \<and>
           sql_find_seat d (v_no_serie v) (b_prim_classe b) (b_voo_id b) = Inr (lugar # more) \<and>
           d' = d\<lparr>bilhetes := map (set_seat bilhete_id lugar aviao) (bilhetes d)\<rparr>"
  using assms
  by (auto simp: checkin_transaction_def split: list.splits option.splits if_splits sum.splits prod.splits
           dest: update_bilhete_ok)

lemma checkin_ticket_success:
  assumes "checkin_ticket eng d now bilhete_id = (Checked_in t lugar aviao, d')"
  shows "checkin_transaction eng d now bilhete_id = (Inr (Checked_in t lugar aviao), d')"
  using assms
  by (auto simp: checkin_ticket_def with_transaction_def split: prod.splits sum.splits)

lemma map_update_distinct:
  "distinct (map f xs) \<Longrightarrow> i < length xs \<Longrightarrow>
     map (\<lambda>x. if f x = f (xs ! i) then g x else x) xs = xs[i := g (xs ! i)]"
proof (induction xs arbitrary: i)
  case Nil
  then show ?case by simp
next
  case (Cons a xs)
  show ?case
  proof (cases i)
    case 0
    from Cons.prems have "\<forall>x\<in>set xs. f x \<noteq> f a" by (auto simp: image_iff)
    then have "map (\<lambda>x. if f x = f a then g x else x) xs = xs" by (simp add: map_idI)
    with 0 show ?thesis by simp
  next
    case (Suc j)
    with Cons.prems have j: "j < length xs" "distinct (map f xs)" "f a \<noteq> f (xs ! j)"
      by (auto simp: image_iff)
    with Cons.IH [of j] Suc show ?thesis by simp
  qed
qed

text \<open>
  C4. When the ticket has a seat already, check-in answers 409 with that seat and the
  stored state is the one before the request (the ticket is identified by its primary
  key, and its flight exists). Hence, after a check-in that assigned a seat, a second
  check-in of the same ticket, at any time and so also after the departure, answers 409
  with the seat the first one chose and changes nothing.
\<close>

theorem checkin_already_assigned:
  "(pk_bilhete d \<and> b \<in> set (bilhetes d) \<and> b_id b = bilhete_id \<and>
    b_voo_id b \<in> set (map v_id (voos d)) \<and> b_lugar b = Some lugar \<longrightarrow>
      checkin_ticket eng d now bilhete_id = (Already_checked_in lugar, d) \<and>
      checkin_status (Already_checked_in lugar) = 409) \<and>
   (checkin_ticket eng d now bilhete_id = (Checked_in t lugar_atribuido aviao, d') \<longrightarrow>
      checkin_ticket eng2 d' now2 bilhete_id = (Already_checked_in lugar_atribuido, d'))"
proof (intro conjI impI)
  assume a: "pk_bilhete d \<and> b \<in> set (bilhetes d) \<and> b_id b = bilhete_id \<and>
    b_voo_id b \<in> set (map v_id (voos d)) \<and> b_lugar b = Some lugar"
  then have "filter (\<lambda>v. b_voo_id b = v_id v) (voos d) \<noteq> []"
    by (auto simp: filter_empty_conv)
  then obtain v rest where "filter (\<lambda>v. b_voo_id b = v_id v) (voos d) = v # rest"
    by (cases "filter (\<lambda>v. b_voo_id b = v_id v) (voos d)") auto
  moreover from a have "select_bilhete d bilhete_id =
      map (Pair b) (filter (\<lambda>v. b_voo_id b = v_id v) (voos d))"
    using select_bilhete_pk [of d b bilhete_id] by blast
  ultimately have "select_bilhete d bilhete_id = (b, v) # map (Pair b) rest"
    by simp
  with a show "checkin_ticket eng d now bilhete_id = (Already_checked_in lugar, d)"
    by (simp add: checkin_ticket_def checkin_transaction_def with_transaction_def)
  show "checkin_status (Already_checked_in lugar) = 409" by simp
next
  assume "checkin_ticket eng d now bilhete_id = (Checked_in t lugar_atribuido aviao, d')"
  from checkin_transaction_success [OF checkin_ticket_success [OF this]]
  obtain b v rest where s: "select_bilhete d bilhete_id = (b, v) # rest"
    and d': "d' = d\<lparr>bilhetes := map (set_seat bilhete_id lugar_atribuido aviao) (bilhetes d)\<rparr>"
    by blast
  from s have "(b, v) \<in> set (select_bilhete d bilhete_id)" by simp
  then have "b_id b = bilhete_id" by (simp add: select_bilhete_row)
  then have "b_lugar (set_seat bilhete_id lugar_atribuido aviao b) = Some lugar_atribuido"
    by (simp add: set_seat_def)
  moreover have "select_bilhete d' bilhete_id =
      (set_seat bilhete_id lugar_atribuido aviao b, v) #
        map (\<lambda>(b, v). (set_seat bilhete_id lugar_atribuido aviao b, v)) rest"
    by (simp add: d' select_bilhete_after_update s)
  ultimately show "checkin_ticket eng2 d' now2 bilhete_id = (Already_checked_in lugar_atribuido, d')"
    by (simp add: checkin_ticket_def checkin_transaction_def with_transaction_def)
qed

theorem checkin_already_assigned_witness:
  "checkin_ticket schema_engine example_db 10 7 =
     (Checked_in 7 ''02B'' ''AIRB-001'', checked_in_db) \<and>
   checkin_ticket schema_engine checked_in_db 500 7 = (Already_checked_in ''02B'', checked_in_db) \<and>
   checkin_ticket schema_engine checked_in_db 10 7 = (Already_checked_in ''02B'', checked_in_db) \<and>
   checkin_status (Already_checked_in ''02B'') = 409"
proof -
  let ?b = "\<lparr>b_id = 7, b_voo_id = 1, b_codigo_reserva = 1, b_nome_passegeiro = ''Ana Silva'',
         b_preco = 150, b_prim_classe = False, b_lugar = Some ''02B'',
         b_no_serie = Some ''AIRB-001''\<rparr>"
  have first: "checkin_ticket schema_engine example_db 10 7 =
     (Checked_in 7 ''02B'' ''AIRB-001'', checked_in_db)"
    by code_simp
  have stored: "pk_bilhete checked_in_db \<and> ?b \<in> set (bilhetes checked_in_db) \<and> b_id ?b = 7 \<and>
    b_voo_id ?b \<in> set (map v_id (voos checked_in_db)) \<and> b_lugar ?b = Some ''02B''"
    by code_simp
  from checkin_already_assigned
    [of example_db ?b 7 "''02B''" schema_engine 10 7 "''02B''" "''AIRB-001''" checked_in_db
        schema_engine 500] first
  have again: "checkin_ticket schema_engine checked_in_db 500 7 =
      (Already_checked_in ''02B'', checked_in_db)" by blast
  from checkin_already_assigned
    [of checked_in_db ?b 7 "''02B''" schema_engine 10 7 "''02B''" "''AIRB-001''" checked_in_db
        schema_engine 500] stored
  have "checkin_ticket schema_engine checked_in_db 10 7 = (Already_checked_in ''02B'', checked_in_db)"
    "checkin_status (Already_checked_in ''02B'') = 409" by blast+
  with first again show ?thesis by simp
qed

text \<open>
  C10. A successful check-in changes one stored row: the ticket with the given id, of
  which it sets \<open>lugar\<close> to the seat and \<open>no_serie\<close> to the aircraft of the ticket's
  flight, both as reported in the answer. The other columns of that ticket, the other
  tickets, and the sales, flights, seats, aircraft, airports and sequences are as before.
\<close>

theorem checkin_frame:
  assumes "pk_bilhete d"
    and "checkin_ticket eng d now bilhete_id = (Checked_in t lugar aviao, d')"
  shows "t = bilhete_id \<and>
         (\<exists>i b v. i < length (bilhetes d) \<and> bilhetes d ! i = b \<and> b_id b = bilhete_id \<and>
            b_lugar b = None \<and> v \<in> set (voos d) \<and> v_id v = b_voo_id b \<and> v_no_serie v = aviao \<and>
            bilhetes d' = (bilhetes d)[i := b\<lparr>b_lugar := Some lugar, b_no_serie := Some aviao\<rparr>]) \<and>
         aeroportos d' = aeroportos d \<and> avioes d' = avioes d \<and> assentos d' = assentos d \<and>
         voos d' = voos d \<and> vendas d' = vendas d \<and>
         venda_seq d' = venda_seq d \<and> bilhete_seq d' = bilhete_seq d"
proof -
  from checkin_transaction_success [OF checkin_ticket_success [OF assms(2)]]
  obtain b v rest where s: "select_bilhete d bilhete_id = (b, v) # rest"
    and b: "b_lugar b = None" and t: "t = bilhete_id" and a: "aviao = v_no_serie v"
    and d': "d' = d\<lparr>bilhetes := map (set_seat bilhete_id lugar aviao) (bilhetes d)\<rparr>"
    by blast
  from s have "(b, v) \<in> set (select_bilhete d bilhete_id)" by simp
  then have row: "b \<in> set (bilhetes d)" "v \<in> set (voos d)" "b_id b = bilhete_id"
      "v_id v = b_voo_id b"
    by (simp_all add: select_bilhete_row)
  from row(1) obtain i where i: "i < length (bilhetes d)" "bilhetes d ! i = b"
    by (auto simp: in_set_conv_nth)
  have "map (set_seat bilhete_id lugar aviao) (bilhetes d) =
      map (\<lambda>x. if b_id x = b_id (bilhetes d ! i)
                then x\<lparr>b_lugar := Some lugar, b_no_serie := Some aviao\<rparr> else x) (bilhetes d)"
    using i row(3) by (simp add: set_seat_def fun_eq_iff)
  also have "\<dots> = (bilhetes d)[i := b\<lparr>b_lugar := Some lugar, b_no_serie := Some aviao\<rparr>]"
    using map_update_distinct [of b_id "bilhetes d" i] assms(1) i by (simp add: pk_bilhete_def)
  finally have "bilhetes d' = (bilhetes d)[i := b\<lparr>b_lugar := Some lugar, b_no_serie := Some aviao\<rparr>]"
    by (simp add: d')
  with i row b a t d' show ?thesis by auto
qed

theorem checkin_frame_witness:
  "pk_bilhete example_db \<and>
   checkin_ticket schema_engine example_db 10 7 =
     (Checked_in 7 ''02B'' ''AIRB-001'', checked_in_db) \<and>
   (\<exists>i b v. i < length (bilhetes example_db) \<and> bilhetes example_db ! i = b \<and> b_id b = 7 \<and>
      b_lugar b = None \<and> v \<in> set (voos example_db) \<and> v_id v = b_voo_id b \<and>
      v_no_serie v = ''AIRB-001'' \<and>
      bilhetes checked_in_db =
        (bilhetes example_db)[i := b\<lparr>b_lugar := Some ''02B'', b_no_serie := Some ''AIRB-001''\<rparr>]) \<and>
   vendas checked_in_db = vendas example_db \<and> voos checked_in_db = voos example_db \<and>
   assentos checked_in_db = assentos example_db"
proof -
  have pk: "pk_bilhete example_db"
    by code_simp
  have first: "checkin_ticket schema_engine example_db 10 7 =
     (Checked_in 7 ''02B'' ''AIRB-001'', checked_in_db)"
    by code_simp
  from checkin_frame [OF pk first] pk first show ?thesis by blast
qed

section \<open>The seat that check-in chooses\<close>

lemma those_Some: "those xs = Some ys \<longleftrightarrow> xs = map Some ys"
proof (induction xs arbitrary: ys)
  case Nil
  then show ?case by auto
next
  case (Cons x xs)
  then show ?case by (cases x; cases ys) (auto split: option.splits)
qed

lemma seat_candidates_iff:
  "a \<in> set (seat_candidates d no_serie prim_classe voo_id) \<longleftrightarrow>
     a \<in> set (assentos d) \<and> a_no_serie a = no_serie \<and> a_prim_classe a = prim_classe \<and>
     \<not> seat_taken d voo_id a"
  by (auto simp: seat_candidates_def)

lemma sql_find_seat_none:
  "seat_candidates d no_serie prim_classe voo_id = [] \<Longrightarrow>
     sql_find_seat d no_serie prim_classe voo_id = Inr []"
  by (simp add: sql_find_seat_def)

lemma sort_key_head_least:
  assumes "sort_key f xs = y # ys" and "x \<in> set xs"
  shows "f y \<le> f x"
proof -
  have "sorted (map f (sort_key f xs))" by (rule sorted_sort_key)
  with assms(1) have "\<forall>z\<in>set ys. f y \<le> f z" by simp
  moreover from assms have "x \<in> set (y # ys)" by (metis set_sort)
  ultimately show ?thesis by auto
qed

lemma keyed_seat:
  "map_option (\<lambda>k. (k, a_lugar a)) (seat_order_key (a_lugar a)) = Some (k, l) \<Longrightarrow>
     a_lugar a = l \<and> seat_order_key (a_lugar a) = Some k"
  by (cases "seat_order_key (a_lugar a)") simp_all

text \<open>
  The seat that \<open>sql_find_seat\<close> returns is one of the candidates (a seat of the
  aircraft and of the class, with no ticket of this flight on it), and its sort key is
  the least among the sort keys of the candidates.
\<close>

lemma sql_find_seat_choice:
  assumes "sql_find_seat d no_serie prim_classe voo_id = Inr (lugar # others)"
  shows "others = [] \<and>
         (\<exists>a k. a \<in> set (seat_candidates d no_serie prim_classe voo_id) \<and> a_lugar a = lugar \<and>
            seat_order_key lugar = Some k \<and>
            list_all (\<lambda>a'. \<exists>k'. seat_order_key (a_lugar a') = Some k' \<and> k \<le> k')
              (seat_candidates d no_serie prim_classe voo_id))"
proof -
  let ?c = "seat_candidates d no_serie prim_classe voo_id"
  let ?f = "\<lambda>a. map_option (\<lambda>k. (k, a_lugar a)) (seat_order_key (a_lugar a))"
  from assms obtain keyed where keyed: "those (map ?f ?c) = Some keyed"
    and pick: "take 1 (map snd (sort_key fst keyed)) = lugar # others"
    by (auto simp: sql_find_seat_def split: option.splits)
  from keyed have m: "map ?f ?c = map Some keyed" by (simp only: those_Some)
  from pick obtain k rest where s: "sort_key fst keyed = (k, lugar) # rest"
    and others: "others = []"
    by (cases "sort_key fst keyed") auto
  have in_keyed: "\<exists>ky\<in>set keyed. ?f a = Some ky" if "a \<in> set ?c" for a
  proof -
    from that have "?f a \<in> set (map ?f ?c)" by simp
    then have "?f a \<in> set (map Some keyed)" by (simp only: m)
    then show ?thesis by auto
  qed
  have from_cand: "\<exists>a\<in>set ?c. ?f a = Some ky" if "ky \<in> set keyed" for ky
  proof -
    from that have "Some ky \<in> set (map Some keyed)" by simp
    then have "Some ky \<in> set (map ?f ?c)" by (simp only: m)
    then have "Some ky \<in> ?f ` set ?c" by (simp only: set_map)
    then obtain a where a: "Some ky = ?f a" "a \<in> set ?c" by (rule imageE)
    from a(1) [symmetric] a(2) show ?thesis by (rule bexI)
  qed
  from s have "(k, lugar) \<in> set (sort_key fst keyed)" by simp
  then have "(k, lugar) \<in> set keyed" by (simp only: set_sort)
  from from_cand [OF this] obtain a where a: "a \<in> set ?c" "?f a = Some (k, lugar)" by blast
  from keyed_seat [OF a(2)] have ak: "a_lugar a = lugar" "seat_order_key lugar = Some k"
    by auto
  have least: "\<exists>k'. seat_order_key (a_lugar a') = Some k' \<and> k \<le> k'" if "a' \<in> set ?c" for a'
  proof -
    from in_keyed [OF that] obtain ky where ky: "ky \<in> set keyed" "?f a' = Some ky" by blast
    obtain k' l' where kl: "ky = (k', l')" by (cases ky)
    from sort_key_head_least [OF s ky(1)] kl have "k \<le> k'" by simp
    moreover from keyed_seat [OF ky(2) [unfolded kl]] have "seat_order_key (a_lugar a') = Some k'"
      by blast
    ultimately show ?thesis by blast
  qed
  then have "list_all (\<lambda>a'. \<exists>k'. seat_order_key (a_lugar a') = Some k' \<and> k \<le> k') ?c"
    by (simp only: list_all_iff) blast
  with a(1) ak others show ?thesis by blast
qed

text \<open>Without a candidate, check-in answers 409 and the stored state stays as it was.\<close>

lemma checkin_no_free_seat:
  assumes "select_bilhete d bilhete_id = (b, v) # rest" and "b_lugar b = None"
    and "now < v_hora_partida v"
    and "seat_candidates d (v_no_serie v) (b_prim_classe b) (b_voo_id b) = []"
  shows "checkin_ticket eng d now bilhete_id = (No_seats, d) \<and> checkin_status No_seats = 409"
  using assms
  by (simp add: checkin_ticket_def checkin_transaction_def with_transaction_def sql_find_seat_none)

lemma checkin_seat_is_first_candidate:
  assumes "checkin_ticket eng d now bilhete_id = (Checked_in t lugar aviao, d')"
  shows "\<exists>b v rest a k.
           select_bilhete d bilhete_id = (b, v) # rest \<and>
           a \<in> set (seat_candidates d (v_no_serie v) (b_prim_classe b) (b_voo_id b)) \<and>
           a_lugar a = lugar \<and> seat_order_key lugar = Some k \<and>
           list_all (\<lambda>a'. \<exists>k'. seat_order_key (a_lugar a') = Some k' \<and> k \<le> k')
             (seat_candidates d (v_no_serie v) (b_prim_classe b) (b_voo_id b))"
proof -
  from checkin_transaction_success [OF checkin_ticket_success [OF assms]]
  obtain b v rest others where s: "select_bilhete d bilhete_id = (b, v) # rest"
    and f: "sql_find_seat d (v_no_serie v) (b_prim_classe b) (b_voo_id b) = Inr (lugar # others)"
    by blast
  from sql_find_seat_choice [OF f] s show ?thesis by blast
qed

text \<open>
  Between two seats whose rows are written with the same digits, the sort keys compare
  as the cabin letters do.
\<close>

lemma regexp_replace_letter:
  "list_all is_digit ds \<Longrightarrow> is_upper c \<Longrightarrow> regexp_replace (ds @ [c]) is_upper = ds"
  by (induction ds) (auto simp: is_digit_def is_upper_def less_eq_char_def)

lemma regexp_replace_digit:
  "ds \<noteq> [] \<Longrightarrow> list_all is_digit ds \<Longrightarrow> regexp_replace (ds @ [c]) is_digit = tl ds @ [c]"
  by (cases ds) auto

lemma append_le_append: "(xs @ ys \<le> xs @ zs) \<longleftrightarrow> (ys \<le> (zs :: 'a :: linorder list))"
  by (induction xs) auto

lemma seat_order_key_same_row:
  assumes "ds \<noteq> []" and "list_all is_digit ds" and "is_upper c1" and "is_upper c2"
    and "seat_order_key (ds @ [c1]) = Some k1" and "seat_order_key (ds @ [c2]) = Some k2"
  shows "k1 \<le> k2 \<longleftrightarrow> c1 \<le> c2"
  using assms
  by (auto simp: seat_order_key_def regexp_replace_letter regexp_replace_digit append_le_append
        less_eq_prod_def)

section \<open>Next available flights\<close>








section \<open>Two check-ins at the same time\<close>

text \<open>
  Run on its own, the transaction of \<open>checkin_ticket\<close> is its two parts one after the
  other.
\<close>

lemma checkin_ticket_split:
  "checkin_ticket eng d now bilhete_id =
     checkin_update eng d bilhete_id (checkin_select d now bilhete_id)"
  by (simp add: checkin_ticket_def checkin_transaction_def checkin_select_def checkin_update_def
        split: list.splits option.splits sum.splits prod.splits)

text \<open>
  C9. With K free seats of a class on a flight, N parallel check-ins of unassigned
  tickets of that flight and class give K successes and N - K Conflicts, and no two
  successes share a seat. In \<open>race_db\<close> the economy seats 2A and 10A of flight 1 are
  free and the economy tickets 7 and 8 are not checked in (K = 2, N = 2). When both
  requests run their seat query before either writes, both queries choose 2A, both
  \<open>UPDATE\<close>s are accepted, as no constraint of the schema keeps two tickets of a flight
  off one seat, and both requests are answered 200 with seat 2A; the ticket ids are
  still distinct. One after the other, the same requests get 2A and 10A.
\<close>

theorem parallel_checkins_share_seat:
  "map a_lugar (seat_candidates race_db ''AIRB-001'' False 1) = [''2A'', ''10A''] \<and>
   map b_lugar (bilhetes race_db) = [None, None, Some ''02B''] \<and>
   map b_prim_classe (bilhetes race_db) = [False, False, False] \<and>
   checkin_select race_db 10 7 = Inr (''2A'', ''AIRB-001'') \<and>
   checkin_select race_db 10 8 = Inr (''2A'', ''AIRB-001'') \<and>
   fst (interleaved_checkins schema_engine race_db 10 7 8) = Checked_in 7 ''2A'' ''AIRB-001'' \<and>
   fst (snd (interleaved_checkins schema_engine race_db 10 7 8)) =
     Checked_in 8 ''2A'' ''AIRB-001'' \<and>
   checkin_status (Checked_in 7 ''2A'' ''AIRB-001'') = 200 \<and>
   checkin_status (Checked_in 8 ''2A'' ''AIRB-001'') = 200 \<and>
   map b_id (bilhetes (snd (snd (interleaved_checkins schema_engine race_db 10 7 8)))) =
     [7, 8, 9] \<and>
   map b_voo_id (bilhetes (snd (snd (interleaved_checkins schema_engine race_db 10 7 8)))) =
     [1, 1, 1] \<and>
   map b_lugar (bilhetes (snd (snd (interleaved_checkins schema_engine race_db 10 7 8)))) =
     [Some ''2A'', Some ''2A'', Some ''02B''] \<and>
   fst (checkin_ticket schema_engine race_db 10 7) = Checked_in 7 ''2A'' ''AIRB-001'' \<and>
   fst (checkin_ticket schema_engine (snd (checkin_ticket schema_engine race_db 10 7)) 10 8) =
     Checked_in 8 ''10A'' ''AIRB-001''"
  by code_simp

end
